theory Spec2Isabelle
  imports Complex_Main "HOL-Library.Sublist"
begin

section \<open>Lead qualification: the transcript service\<close>

text \<open>
  A shallow embedding of the transcript service (\<^verbatim>\<open>extractQualificationData\<close> and the
  functions it calls). Conventions:

  \<^item> A JavaScript string is a \<^typ>\<open>string\<close>; each \<^typ>\<open>char\<close> stands for one UTF-16 code
    unit in the range U+0000 to U+00FF, so the development covers texts over Latin-1.
  \<^item> \<^verbatim>\<open>undefined\<close> and \<^verbatim>\<open>null\<close> fields of the call context are both \<open>None\<close>: the
    source tests them together (\<^verbatim>\<open>x !== undefined && x !== null\<close>, \<^verbatim>\<open>!x\<close>, \<^verbatim>\<open>x === "..."\<close>).
  \<^item> A thrown exception is the left summand of a sum type.
  \<^item> The built-in \<^verbatim>\<open>JSON.parse\<close> and the provider call \<^verbatim>\<open>messages.create\<close> are not code
    of the service; they are parameters of the functions that use them, and every
    theorem holds for all of their behaviours.
\<close>

subsection \<open>Data\<close>

text \<open>The interface \<^verbatim>\<open>CallContext\<close>; the callers pass a rounded number of seconds.\<close>

record CallContext =
  duration :: "int option"
  endedReason :: "string option"
  transcript :: "string option"

text \<open>
  The numbers \<^verbatim>\<open>JSON.parse\<close> can produce: a finite double, which is a rational, or an
  infinity (from a literal such as \<^verbatim>\<open>1e999\<close>). It never produces \<^verbatim>\<open>NaN\<close>.
\<close>

datatype js_number = Finite rat | PosInfinity | NegInfinity

text \<open>The values \<^verbatim>\<open>JSON.parse\<close> returns; an object lists its own properties.\<close>

datatype js_value =
    JNull
  | JBool bool
  | JNum js_number
  | JStr string
  | JArr "js_value list"
  | JObj "(string \<times> js_value) list"

text \<open>
  The interface \<^verbatim>\<open>QualificationResult\<close>. Its text fields are declared \<^verbatim>\<open>string\<close>, but the
  sanitizer copies whatever truthy value the parsed object holds, so at run time they are
  JavaScript values.
\<close>

record QualificationResult =
  motivation :: js_value
  timeline :: js_value
  budget :: js_value
  authority :: js_value
  pastExperience :: js_value
  intent :: string
  qualificationScore :: int

datatype js_error = TypeError | ConfigError | ProviderError

subsection \<open>String primitives\<close>

text \<open>
  The white space and line terminators of ECMAScript below U+0100: TAB, LF, VT, FF, CR,
  SPACE and NBSP. \<^verbatim>\<open>String.prototype.trim\<close> and the regular expression class \<^verbatim>\<open>\s\<close> use
  the same set.
\<close>

definition isWhitespace :: "char \<Rightarrow> bool" where
  "isWhitespace c = (of_char c \<in> {9, 10, 11, 12, 13, 32, 160 :: nat})"

definition trim :: "string \<Rightarrow> string" where
  "trim s = rev (dropWhile isWhitespace (rev (dropWhile isWhitespace s)))"

text \<open>
  \<^verbatim>\<open>String.prototype.toLowerCase\<close> below U+0100: the letters A to Z and the Latin-1 capitals
  U+00C0 to U+00DE (without the multiplication sign U+00D7) move up by 32.
\<close>

definition lowerChar :: "char \<Rightarrow> char" where
  "lowerChar c =
     (let n = (of_char c :: nat)
      in if (65 \<le> n \<and> n \<le> 90) \<or> (192 \<le> n \<and> n \<le> 222 \<and> n \<noteq> 215)
         then char_of (n + 32) else c)"

definition toLowerCase :: "string \<Rightarrow> string" where
  "toLowerCase s = map lowerChar s"

text \<open>\<^verbatim>\<open>haystack.includes(needle)\<close>: the needle occurs as a contiguous substring.\<close>

definition str_includes :: "string \<Rightarrow> string \<Rightarrow> bool" where
  "str_includes haystack needle = sublist needle haystack"

subsection \<open>Cold-signal classifier\<close>

text \<open>\<^verbatim>\<open>getColdLeadResult(motivation)\<close>.\<close>

definition getColdLeadResult :: "string \<Rightarrow> QualificationResult" where
  "getColdLeadResult m =
     \<lparr> motivation = JStr m,
       timeline = JStr ''Unknown'',
       budget = JStr ''Unknown'',
       authority = JStr ''Unknown'',
       pastExperience = JStr ''Unknown'',
       intent = ''cold'',
       qualificationScore = 10 \<rparr>"

text \<open>
  \<^verbatim>\<open>checkForColdLeadSignals(context)\<close>: an if-cascade; \<open>None\<close> is the source's \<^verbatim>\<open>null\<close>
  ("no obvious cold signals").
\<close>

definition checkForColdLeadSignals :: "CallContext \<Rightarrow> QualificationResult option" where
  "checkForColdLeadSignals context =
     (if (case duration context of None \<Rightarrow> False | Some d \<Rightarrow> d < 15)
      then Some (getColdLeadResult ''Call ended immediately - no engagement'')
      else if endedReason context = Some ''customer-ended-call'' \<and>
              (case duration context of None \<Rightarrow> False | Some d \<Rightarrow> d < 30)
      then Some (getColdLeadResult ''Customer hung up early - not interested'')
      else if endedReason context = Some ''silence-timed-out''
      then Some \<lparr> motivation = JStr ''No engagement - call timed out due to silence'',
                  timeline = JStr ''Unknown'',
                  budget = JStr ''Unknown'',
                  authority = JStr ''Unknown'',
                  pastExperience = JStr ''Unknown'',
                  intent = ''cold'',
                  qualificationScore = 5 \<rparr>
      else if endedReason context = Some ''voicemail-reached''
      then Some \<lparr> motivation = JStr ''Could not reach - went to voicemail'',
                  timeline = JStr ''Unknown'',
                  budget = JStr ''Unknown'',
                  authority = JStr ''Unknown'',
                  pastExperience = JStr ''Unknown'',
                  intent = ''cold'',
                  qualificationScore = 15 \<rparr>
      else if endedReason context = Some ''pipeline-error-exceeded-max-retries'' \<or>
              endedReason context = Some ''phone-call-provider-closed-websocket''
      then Some \<lparr> motivation = JStr ''Call failed due to technical issues'',
                  timeline = JStr ''Unknown'',
                  budget = JStr ''Unknown'',
                  authority = JStr ''Unknown'',
                  pastExperience = JStr ''Unknown'',
                  intent = ''cold'',
                  qualificationScore = 10 \<rparr>
      else None)"

subsection \<open>Heuristic fallback analyzer\<close>

definition positiveSignals :: "string list" where
  "positiveSignals =
     [''interested'', ''need'', ''want'', ''looking for'', ''excited'', ''great'',
      ''perfect'', ''yes'', ''tell me more'']"

definition negativeSignals :: "string list" where
  "negativeSignals =
     [''not interested'', ''maybe later'', ''not sure'', ''too expensive'', ''busy'',
      ''no thanks'', ''goodbye'', ''not right now'']"

text \<open>
  The two keyword loops, \<^verbatim>\<open>for (const signal of signals) if (lowerTranscript.includes(signal))
  score += delta\<close>, with \<open>delta\<close> 5 for the positive and -10 for the negative list.
\<close>

fun scanSignals :: "string \<Rightarrow> int \<Rightarrow> string list \<Rightarrow> int \<Rightarrow> int" where
  "scanSignals lowerTranscript delta [] score = score"
| "scanSignals lowerTranscript delta (signal # signals) score =
     scanSignals lowerTranscript delta signals
       (if str_includes lowerTranscript signal then score + delta else score)"

text \<open>The variable \<^verbatim>\<open>score\<close> of \<^verbatim>\<open>fallbackAnalysis\<close> just before it is clamped.\<close>

definition fallbackRawScore :: "CallContext \<Rightarrow> int" where
  "fallbackRawScore context =
     (let score0 = 30;
          score1 = (case duration context of
                      None \<Rightarrow> score0
                    | Some d \<Rightarrow>
                        if d < 30 then score0 - 20
                        else if d < 60 then score0 - 10
                        else if d > 180 then score0 + 15
                        else if d > 120 then score0 + 10
                        else score0);
          score2 = (if endedReason context = Some ''customer-ended-call''
                    then score1 - 15 else score1)
      in case transcript context of
           None \<Rightarrow> score2 - 20
         | Some t \<Rightarrow>
             if t \<noteq> [] \<and> length (trim t) > 0
             then let lowerTranscript = toLowerCase t;
                      score3 = scanSignals lowerTranscript 5 positiveSignals score2
                  in scanSignals lowerTranscript (- 10) negativeSignals score3
             else score2 - 20)"

text \<open>\<^verbatim>\<open>fallbackAnalysis(context)\<close>: clamp, derive the intent, fill the placeholders.\<close>

definition fallbackAnalysis :: "CallContext \<Rightarrow> QualificationResult" where
  "fallbackAnalysis context =
     (let score = max 0 (min 100 (fallbackRawScore context))
      in \<lparr> motivation = JStr ''Analysis performed without AI - limited data available'',
           timeline = JStr ''Not determined'',
           budget = JStr ''Not determined'',
           authority = JStr ''Not determined'',
           pastExperience = JStr ''Not determined'',
           intent = (if score \<ge> 60 then ''hot'' else if score \<ge> 35 then ''warm'' else ''cold''),
           qualificationScore = score \<rparr>)"

subsection \<open>Runtime configuration\<close>

text \<open>The store of \<^verbatim>\<open>runtime-config\<close>; a key is \<^verbatim>\<open>null\<close> or a string.\<close>

record RuntimeConfig =
  vapiApiKey :: "string option"
  vapiWebhookSecret :: "string option"
  vapiPhoneNumberId :: "string option"
  anthropicApiKey :: "string option"

text \<open>Truthiness of a key: neither \<^verbatim>\<open>null\<close> nor the empty string.\<close>

definition keyIsSet :: "string option \<Rightarrow> bool" where
  "keyIsSet k = (case k of None \<Rightarrow> False | Some s \<Rightarrow> s \<noteq> [])"

definition isConfigured :: "RuntimeConfig \<Rightarrow> bool" where
  "isConfigured config =
     (keyIsSet (vapiApiKey config) \<and> keyIsSet (vapiPhoneNumberId config) \<and>
      keyIsSet (anthropicApiKey config))"

text \<open>\<^verbatim>\<open>getAnthropicClient()\<close> throws without a key; the client is represented by its key.\<close>

definition getAnthropicClient :: "RuntimeConfig \<Rightarrow> js_error + string" where
  "getAnthropicClient config =
     (case anthropicApiKey config of
        None \<Rightarrow> Inl ConfigError
      | Some k \<Rightarrow> if k = [] then Inl ConfigError else Inr k)"

subsection \<open>Response parser\<close>

text \<open>
  The first occurrence of a pattern in a text: the text before it and the text after it.
\<close>

fun splitAtFirst :: "string \<Rightarrow> string \<Rightarrow> (string \<times> string) option" where
  "splitAtFirst pat [] = (if pat = [] then Some ([], []) else None)"
| "splitAtFirst pat (c # cs) =
     (if prefix pat (c # cs) then Some ([], drop (length pat) (c # cs))
      else case splitAtFirst pat cs of
             None \<Rightarrow> None
           | Some (before, after) \<Rightarrow> Some (c # before, after))"

definition fence :: string where
  "fence = replicate 3 (CHR 0x60)"

text \<open>
  Capture group 1 of the first match of the regular expression
  \<^verbatim>\<open>/```(?:json)?\s*([\s\S]*?)```/\<close>: after the first fence an optional \<^verbatim>\<open>json\<close> and the
  longest run of white space are skipped, and the group is the text up to the next fence.
  Backtracking finds nothing else: the skipped characters are no backquotes, so a closing
  fence lies behind them or nowhere, and a later opening fence would need the same
  closing fence.
\<close>

definition matchCodeBlock :: "string \<Rightarrow> string option" where
  "matchCodeBlock jsonText =
     (case splitAtFirst fence jsonText of
        None \<Rightarrow> None
      | Some (before, rest) \<Rightarrow>
          (let rest1 = (if prefix ''json'' rest then drop 4 rest else rest);
               rest2 = dropWhile isWhitespace rest1
           in case splitAtFirst fence rest2 of
                None \<Rightarrow> None
              | Some (inner, after) \<Rightarrow> Some inner))"

text \<open>
  The first match of \<^verbatim>\<open>/\{[\s\S]*\}/\<close>: from the first opening brace to the last closing
  brace behind it.
\<close>

definition matchObjectPattern :: "string \<Rightarrow> string option" where
  "matchObjectPattern jsonText =
     (let fromBrace = dropWhile (\<lambda>c. c \<noteq> CHR ''{'') jsonText
      in if fromBrace = [] then None
         else let body = rev (dropWhile (\<lambda>c. c \<noteq> CHR ''}'') (rev (tl fromBrace)))
              in if body = [] then None else Some (CHR ''{'' # body))"

text \<open>
  \<^verbatim>\<open>parseQualificationJson(jsonText)\<close>. The parameter \<open>JSON_parse\<close> is the built-in
  \<^verbatim>\<open>JSON.parse\<close>, \<open>None\<close> where it throws. The last resort is the empty object \<^verbatim>\<open>{}\<close>.
\<close>

definition parseQualificationJson :: "(string \<Rightarrow> js_value option) \<Rightarrow> string \<Rightarrow> js_value" where
  "parseQualificationJson JSON_parse jsonText =
     (case JSON_parse jsonText of
        Some v \<Rightarrow> v
      | None \<Rightarrow>
          (case (case matchCodeBlock jsonText of
                   None \<Rightarrow> None
                 | Some inner \<Rightarrow> if inner \<noteq> [] then JSON_parse (trim inner) else None) of
             Some v \<Rightarrow> v
           | None \<Rightarrow>
               (case (case matchObjectPattern jsonText of
                        None \<Rightarrow> None
                      | Some obj \<Rightarrow> JSON_parse obj) of
                  Some v \<Rightarrow> v
                | None \<Rightarrow> JObj [])))"

subsection \<open>Sanitizer\<close>

text \<open>
  Reading one of the seven properties of a qualification result from a value other than
  \<^verbatim>\<open>null\<close>: an object yields its own property, every other value \<^verbatim>\<open>undefined\<close> (\<open>None\<close>).
  In an object the first entry of a key counts.
\<close>

definition property :: "js_value \<Rightarrow> string \<Rightarrow> js_value option" where
  "property v key = (case v of JObj kvs \<Rightarrow> map_of kvs key | _ \<Rightarrow> None)"

text \<open>JavaScript truthiness, as the operator \<^verbatim>\<open>||\<close> tests it.\<close>

definition truthy :: "js_value \<Rightarrow> bool" where
  "truthy v =
     (case v of
        JNull \<Rightarrow> False
      | JBool b \<Rightarrow> b
      | JNum n \<Rightarrow> n \<noteq> Finite 0
      | JStr s \<Rightarrow> s \<noteq> []
      | JArr _ \<Rightarrow> True
      | JObj _ \<Rightarrow> True)"

text \<open>\<^verbatim>\<open>value || "fallback text"\<close>.\<close>

definition orDefault :: "js_value option \<Rightarrow> string \<Rightarrow> js_value" where
  "orDefault v d =
     (case v of None \<Rightarrow> JStr d | Some x \<Rightarrow> if truthy x then x else JStr d)"

definition validIntents :: "string list" where
  "validIntents = [''hot'', ''warm'', ''cold'']"

text \<open>\<^verbatim>\<open>Math.round\<close> on a finite number: the nearest integer, a tie going up.\<close>

definition Math_round :: "rat \<Rightarrow> int" where
  "Math_round q = \<lfloor>q + 1 / 2\<rfloor>"

text \<open>
  \<^verbatim>\<open>Math.max(0, Math.min(100, Math.round(score)))\<close>. \<^verbatim>\<open>Math.round\<close> leaves an infinity as
  it is, and the minimum with 100 and the maximum with 0 then give 100 and 0.
\<close>

definition clampScore :: "js_number \<Rightarrow> int" where
  "clampScore n =
     (case n of
        Finite q \<Rightarrow> max 0 (min 100 (Math_round q))
      | PosInfinity \<Rightarrow> 100
      | NegInfinity \<Rightarrow> 0)"

text \<open>
  \<^verbatim>\<open>validateQualificationResult(result)\<close>. Reading a property of \<^verbatim>\<open>null\<close> throws a
  \<^verbatim>\<open>TypeError\<close>.
\<close>

definition validateQualificationResult :: "js_value \<Rightarrow> js_error + QualificationResult" where
  "validateQualificationResult result =
     (if result = JNull then Inl TypeError
      else
        let intent' = (case property result ''intent'' of
                         Some (JStr s) \<Rightarrow> if s \<in> set validIntents then s else ''cold''
                       | _ \<Rightarrow> ''cold'');
            score = (case property result ''qualificationScore'' of
                       Some (JNum n) \<Rightarrow> n
                     | _ \<Rightarrow> Finite 0)
        in Inr \<lparr> motivation = orDefault (property result ''motivation'') ''Not identified during call'',
                 timeline = orDefault (property result ''timeline'') ''Not discussed'',
                 budget = orDefault (property result ''budget'') ''Not discussed'',
                 authority = orDefault (property result ''authority'') ''Unknown'',
                 pastExperience = orDefault (property result ''pastExperience'') ''Not discussed'',
                 intent = intent',
                 qualificationScore = clampScore score \<rparr>)"

subsection \<open>Orchestrator\<close>

text \<open>
  The provider's answer to \<^verbatim>\<open>messages.create\<close>: the call throws, or it returns a message
  whose content is a list of blocks, some of type \<^verbatim>\<open>text\<close>.
\<close>

datatype content_block = TextBlock string | OtherBlock

datatype provider_reply = Threw | Message "content_block list"

definition isTextBlock :: "content_block \<Rightarrow> bool" where
  "isTextBlock b = (case b of TextBlock _ \<Rightarrow> True | OtherBlock \<Rightarrow> False)"

text \<open>
  The transcript as it is sent: \<^verbatim>\<open>cleanedTranscript.length > maxLength ?
  cleanedTranscript.substring(0, maxLength) + "\n...[transcript truncated]" : cleanedTranscript\<close>
  with \<^verbatim>\<open>maxLength = 15000\<close>.
\<close>

definition truncateTranscript :: "string \<Rightarrow> string" where
  "truncateTranscript cleanedTranscript =
     (let maxLength = 15000
      in if length cleanedTranscript > maxLength
         then take maxLength cleanedTranscript @ [CHR 0x0A] @ ''...[transcript truncated]''
         else cleanedTranscript)"

text \<open>
  The body of the \<^verbatim>\<open>try\<close> block of \<^verbatim>\<open>extractQualificationData\<close>. The parameter
  \<open>messages_create\<close> is the provider; it receives the transcript as it is sent (the fixed
  instructions around it are left out). The second component of the result lists the
  requests made to the provider.
\<close>

definition tryExtract ::
  "(string \<Rightarrow> js_value option) \<Rightarrow> RuntimeConfig \<Rightarrow> (string \<Rightarrow> provider_reply) \<Rightarrow>
   CallContext \<Rightarrow> (js_error + QualificationResult) \<times> string list" where
  "tryExtract JSON_parse config messages_create context =
     (case transcript context of
        None \<Rightarrow> (Inr (getColdLeadResult ''No conversation recorded''), [])
      | Some t \<Rightarrow>
          if t = [] \<or> length (trim t) = 0
          then (Inr (getColdLeadResult ''No conversation recorded''), [])
          else
            let cleanedTranscript = trim t;
                truncatedTranscript = truncateTranscript cleanedTranscript
            in (case getAnthropicClient config of
                  Inl e \<Rightarrow> (Inl e, [])
                | Inr client \<Rightarrow>
                    (case messages_create truncatedTranscript of
                       Threw \<Rightarrow> (Inl ProviderError, [truncatedTranscript])
                     | Message content \<Rightarrow>
                         (case find isTextBlock content of
                            Some (TextBlock text) \<Rightarrow>
                              (validateQualificationResult
                                 (parseQualificationJson JSON_parse (trim text)),
                               [truncatedTranscript])
                          | _ \<Rightarrow> (Inr (fallbackAnalysis context), [truncatedTranscript])))))"

text \<open>
  \<^verbatim>\<open>extractQualificationData(context)\<close>: cold signals first, then the configuration check,
  then the \<^verbatim>\<open>try\<close> block, whose \<^verbatim>\<open>catch\<close> clause answers with the fallback analysis.
\<close>

definition extractQualificationData ::
  "(string \<Rightarrow> js_value option) \<Rightarrow> RuntimeConfig \<Rightarrow> (string \<Rightarrow> provider_reply) \<Rightarrow>
   CallContext \<Rightarrow> QualificationResult \<times> string list" where
  "extractQualificationData JSON_parse config messages_create context =
     (case checkForColdLeadSignals context of
        Some coldLeadResult \<Rightarrow> (coldLeadResult, [])
      | None \<Rightarrow>
          if \<not> isConfigured config then (fallbackAnalysis context, [])
          else (case tryExtract JSON_parse config messages_create context of
                  (Inr result, requests) \<Rightarrow> (result, requests)
                | (Inl error, requests) \<Rightarrow> (fallbackAnalysis context, requests)))"

subsection \<open>The fallback score as the specification words it\<close>

text \<open>
  The duration adjustment: minus 20 below 30 seconds, else minus 10 below 60, else plus 15
  above 180, else plus 10 above 120; nothing for an absent duration.
\<close>

definition spec_durationAdjustment :: "int option \<Rightarrow> int" where
  "spec_durationAdjustment dur =
     (case dur of
        None \<Rightarrow> 0
      | Some d \<Rightarrow>
          if d < 30 then - 20 else if d < 60 then - 10
          else if d > 180 then 15 else if d > 120 then 10 else 0)"

text \<open>
  The keyword adjustment: plus 5 for each positive keyword that is a substring of the
  lowercased transcript, minus 10 for each negative one, every keyword counted once.
\<close>

definition spec_keywordAdjustment :: "string \<Rightarrow> int" where
  "spec_keywordAdjustment t =
     5 * int (length (filter (str_includes (toLowerCase t)) positiveSignals))
     - 10 * int (length (filter (str_includes (toLowerCase t)) negativeSignals))"

text \<open>
  The score: 30 plus the adjustments, clamped into 0..100. The parameter \<open>isEmpty\<close> says
  which transcripts count as empty and cost 20 instead of being scanned.
\<close>

definition spec_fallbackScore :: "(string \<Rightarrow> bool) \<Rightarrow> CallContext \<Rightarrow> int" where
  "spec_fallbackScore isEmpty context =
     max 0 (min 100
       (30 + spec_durationAdjustment (duration context)
           + (if endedReason context = Some ''customer-ended-call'' then - 15 else 0)
           + (case transcript context of
                None \<Rightarrow> - 20
              | Some t \<Rightarrow> if isEmpty t then - 20 else spec_keywordAdjustment t)))"

section \<open>Properties\<close>

subsection \<open>Cold-signal classifier\<close>

text \<open>
  C3, as stated: a call shorter than 15 seconds gets the motivation
  "Call ended immediately - no engagement." with a full stop at its end. The source's text
  has no full stop, so already the call of 8 seconds ended by the customer refutes it.
\<close>

theorem short_call_motivation_counterexample:
  "map_option motivation
     (checkForColdLeadSignals
        \<lparr>duration = Some 8, endedReason = Some ''customer-ended-call'',
         transcript = Some ''Hello?''\<rparr>)
   \<noteq> Some (JStr ''Call ended immediately - no engagement.'')"
  by (simp add: checkForColdLeadSignals_def getColdLeadResult_def)

text \<open>
  C3, amended: for every call context whose duration is present and below 15 seconds,
  whatever the transcript and the reason of the call's end, the classifier short-circuits
  and the orchestrator returns its result without a request to the provider: intent cold,
  score 10, motivation "Call ended immediately - no engagement" (no full stop). The rule
  is the first of the cascade, so it wins over the customer-ended-call rule.
\<close>

theorem short_call_is_cold:
  assumes "duration context = Some d" and "d < 15"
  shows "checkForColdLeadSignals context =
           Some (getColdLeadResult ''Call ended immediately - no engagement'')
         \<and> extractQualificationData JSON_parse config messages_create context =
           (getColdLeadResult ''Call ended immediately - no engagement'', [])
         \<and> intent (getColdLeadResult ''Call ended immediately - no engagement'') = ''cold''
         \<and> qualificationScore (getColdLeadResult ''Call ended immediately - no engagement'') = 10
         \<and> motivation (getColdLeadResult ''Call ended immediately - no engagement'') =
           JStr ''Call ended immediately - no engagement''"
proof -
  have c: "checkForColdLeadSignals context =
           Some (getColdLeadResult ''Call ended immediately - no engagement'')"
    using assms by (simp add: checkForColdLeadSignals_def)
  then show ?thesis
    by (simp add: extractQualificationData_def getColdLeadResult_def)
qed

text \<open>The first end-to-end scenario: 8 seconds, ended by the customer.\<close>

theorem short_call_is_cold_witness:
  "duration \<lparr>duration = Some 8, endedReason = Some ''customer-ended-call'',
             transcript = Some ''Hello?''\<rparr> = Some 8
   \<and> (8 :: int) < 15
   \<and> extractQualificationData (\<lambda>s. None)
        \<lparr>vapiApiKey = Some ''vapi-key'', vapiWebhookSecret = None,
         vapiPhoneNumberId = Some ''phone-id'', anthropicApiKey = Some ''api-key''\<rparr>
        (\<lambda>s. Threw)
        \<lparr>duration = Some 8, endedReason = Some ''customer-ended-call'',
         transcript = Some ''Hello?''\<rparr>
      = (getColdLeadResult ''Call ended immediately - no engagement'', [])"
  using short_call_is_cold
          [of "\<lparr>duration = Some 8, endedReason = Some ''customer-ended-call'',
                transcript = Some ''Hello?''\<rparr>" 8 "\<lambda>s. None"
              "\<lparr>vapiApiKey = Some ''vapi-key'', vapiWebhookSecret = None,
                vapiPhoneNumberId = Some ''phone-id'', anthropicApiKey = Some ''api-key''\<rparr>"
              "\<lambda>s. Threw"]
  by simp

text \<open>
  C7: the duration rules compare strictly. With a duration of exactly 15 seconds the result
  is never that of the under-15-seconds rule; with a duration of exactly 30 seconds and a
  call ended by the customer no rule fires at all.
\<close>

theorem duration_bounds_are_strict:
  "(duration context = Some 15 \<longrightarrow>
      map_option motivation (checkForColdLeadSignals context)
        \<noteq> Some (JStr ''Call ended immediately - no engagement''))
   \<and> (duration context = Some 30 \<and> endedReason context = Some ''customer-ended-call'' \<longrightarrow>
      checkForColdLeadSignals context = None)"
  by (simp add: checkForColdLeadSignals_def getColdLeadResult_def)

theorem duration_bounds_are_strict_witness:
  "map_option motivation (checkForColdLeadSignals
      \<lparr>duration = Some 15, endedReason = Some ''customer-ended-call'', transcript = None\<rparr>)
     \<noteq> Some (JStr ''Call ended immediately - no engagement'')
   \<and> checkForColdLeadSignals
      \<lparr>duration = Some 30, endedReason = Some ''customer-ended-call'', transcript = None\<rparr>
     = None"
  using duration_bounds_are_strict
          [of "\<lparr>duration = Some 15, endedReason = Some ''customer-ended-call'',
                transcript = None\<rparr>"]
        duration_bounds_are_strict
          [of "\<lparr>duration = Some 30, endedReason = Some ''customer-ended-call'',
                transcript = None\<rparr>"]
  by simp

subsection \<open>Empty transcript\<close>

text \<open>
  C6: when no cold-signal rule fires and the provider is configured, a transcript that is
  absent or empty after trimming makes the orchestrator return intent cold, score 10 and
  the motivation "No conversation recorded"; the list of requests to the provider is
  empty, whatever the provider and the JSON parser would have answered.
\<close>

theorem empty_transcript_bypasses_model:
  assumes "checkForColdLeadSignals context = None"
    and "isConfigured config"
    and "case transcript context of None \<Rightarrow> True | Some t \<Rightarrow> trim t = []"
  shows "extractQualificationData JSON_parse config messages_create context =
           (getColdLeadResult ''No conversation recorded'', [])
         \<and> intent (getColdLeadResult ''No conversation recorded'') = ''cold''
         \<and> qualificationScore (getColdLeadResult ''No conversation recorded'') = 10
         \<and> motivation (getColdLeadResult ''No conversation recorded'') =
             JStr ''No conversation recorded''"
proof -
  have "tryExtract JSON_parse config messages_create context =
          (Inr (getColdLeadResult ''No conversation recorded''), [])"
    using assms(3) by (simp add: tryExtract_def split: option.splits)
  with assms(1,2) show ?thesis
    by (simp add: extractQualificationData_def getColdLeadResult_def)
qed

text \<open>The third end-to-end scenario: 240 seconds, ended by the assistant, empty transcript.\<close>

theorem empty_transcript_bypasses_model_witness:
  "checkForColdLeadSignals
     \<lparr>duration = Some 240, endedReason = Some ''assistant-ended-call'',
      transcript = Some []\<rparr> = None
   \<and> isConfigured \<lparr>vapiApiKey = Some ''vapi-key'', vapiWebhookSecret = None,
         vapiPhoneNumberId = Some ''phone-id'', anthropicApiKey = Some ''api-key''\<rparr>
   \<and> trim [] = []
   \<and> extractQualificationData (\<lambda>s. None)
        \<lparr>vapiApiKey = Some ''vapi-key'', vapiWebhookSecret = None,
         vapiPhoneNumberId = Some ''phone-id'', anthropicApiKey = Some ''api-key''\<rparr>
        (\<lambda>s. Message [TextBlock ''{}''])
        \<lparr>duration = Some 240, endedReason = Some ''assistant-ended-call'',
         transcript = Some []\<rparr>
      = (getColdLeadResult ''No conversation recorded'', [])"
  using empty_transcript_bypasses_model
          [of "\<lparr>duration = Some 240, endedReason = Some ''assistant-ended-call'',
                transcript = Some []\<rparr>"
              "\<lparr>vapiApiKey = Some ''vapi-key'', vapiWebhookSecret = None,
                vapiPhoneNumberId = Some ''phone-id'', anthropicApiKey = Some ''api-key''\<rparr>"
              "\<lambda>s. None" "\<lambda>s. Message [TextBlock ''{}'']"]
  by (simp add: checkForColdLeadSignals_def isConfigured_def keyIsSet_def trim_def)

subsection \<open>Sanitizer\<close>

lemma Math_round_nearest: "\<bar>of_int (Math_round q) - q\<bar> \<le> \<bar>of_int k - q\<bar>"
proof -
  have "Math_round q = round q" by (simp add: Math_round_def round_def)
  then show ?thesis using round_diff_minimal [of q k] by (simp add: abs_minus_commute)
qed

lemma clampScore_range: "0 \<le> clampScore n \<and> clampScore n \<le> 100"
  by (cases n) (simp_all add: clampScore_def)

text \<open>
  C5: for every parsed object the sanitizer succeeds; the intent is the object's intent
  when that is one of the strings hot, warm, cold, and cold otherwise (also when absent);
  the score is the object's score rounded to a nearest integer and then clamped into
  0..100 when it is a finite number, 100 and 0 for the two infinities, and 0 when it is
  no number or absent.
\<close>

theorem sanitizer_intent_and_score:
  "case validateQualificationResult (JObj kvs) of
     Inl e \<Rightarrow> False
   | Inr r \<Rightarrow>
       (\<forall>s. map_of kvs ''intent'' = Some (JStr s) \<and> s \<in> {''hot'', ''warm'', ''cold''}
            \<longrightarrow> intent r = s)
     \<and> (map_of kvs ''intent'' \<notin> {Some (JStr ''hot''), Some (JStr ''warm''), Some (JStr ''cold'')}
            \<longrightarrow> intent r = ''cold'')
     \<and> (\<forall>q. map_of kvs ''qualificationScore'' = Some (JNum (Finite q))
            \<longrightarrow> qualificationScore r = max 0 (min 100 (Math_round q))
              \<and> (\<forall>k. \<bar>of_int (Math_round q) - q\<bar> \<le> \<bar>of_int k - q\<bar>))
     \<and> (map_of kvs ''qualificationScore'' = Some (JNum PosInfinity)
            \<longrightarrow> qualificationScore r = 100)
     \<and> (map_of kvs ''qualificationScore'' = Some (JNum NegInfinity)
            \<longrightarrow> qualificationScore r = 0)
     \<and> ((\<forall>n. map_of kvs ''qualificationScore'' \<noteq> Some (JNum n))
            \<longrightarrow> qualificationScore r = 0)"
proof -
  let ?i = "case map_of kvs ''intent'' of
              Some (JStr s) \<Rightarrow> if s \<in> set validIntents then s else ''cold''
            | _ \<Rightarrow> ''cold''"
  let ?n = "case map_of kvs ''qualificationScore'' of
              Some (JNum n) \<Rightarrow> n
            | _ \<Rightarrow> Finite 0"
  obtain r where r: "validateQualificationResult (JObj kvs) = Inr r"
    and i: "intent r = ?i" and n: "qualificationScore r = clampScore ?n"
    by (simp add: validateQualificationResult_def property_def Let_def)
  have 1: "\<forall>s. map_of kvs ''intent'' = Some (JStr s) \<and> s \<in> {''hot'', ''warm'', ''cold''}
            \<longrightarrow> intent r = s"
    by (auto simp: i validIntents_def)
  have 2: "map_of kvs ''intent'' \<notin> {Some (JStr ''hot''), Some (JStr ''warm''), Some (JStr ''cold'')}
            \<longrightarrow> intent r = ''cold''"
    by (auto simp: i validIntents_def split: option.splits js_value.splits)
  have 3: "\<forall>q. map_of kvs ''qualificationScore'' = Some (JNum (Finite q))
            \<longrightarrow> qualificationScore r = max 0 (min 100 (Math_round q))
              \<and> (\<forall>k. \<bar>of_int (Math_round q) - q\<bar> \<le> \<bar>of_int k - q\<bar>)"
    by (simp add: n clampScore_def Math_round_nearest)
  have 4: "map_of kvs ''qualificationScore'' = Some (JNum PosInfinity)
            \<longrightarrow> qualificationScore r = 100"
    by (simp add: n clampScore_def)
  have 5: "map_of kvs ''qualificationScore'' = Some (JNum NegInfinity)
            \<longrightarrow> qualificationScore r = 0"
    by (simp add: n clampScore_def)
  have 6: "(\<forall>n. map_of kvs ''qualificationScore'' \<noteq> Some (JNum n))
            \<longrightarrow> qualificationScore r = 0"
    by (auto simp: n clampScore_def Math_round_def split: option.splits js_value.splits)
  from 1 2 3 4 5 6 show ?thesis by (simp only: r sum.case)
qed

text \<open>In particular a parsed object with the score 150 yields 100.\<close>

theorem sanitizer_intent_and_score_witness:
  "validateQualificationResult
     (JObj [(''intent'', JStr ''warm''), (''qualificationScore'', JNum (Finite 150))])
   = Inr \<lparr>motivation = JStr ''Not identified during call'',
          timeline = JStr ''Not discussed'', budget = JStr ''Not discussed'',
          authority = JStr ''Unknown'', pastExperience = JStr ''Not discussed'',
          intent = ''warm'', qualificationScore = 100\<rparr>"
  using sanitizer_intent_and_score
          [of "[(''intent'', JStr ''warm''), (''qualificationScore'', JNum (Finite 150))]"]
  by (simp add: validateQualificationResult_def property_def validIntents_def
      clampScore_def Math_round_def orDefault_def Let_def)

lemma orDefault_truthy: "d \<noteq> [] \<Longrightarrow> truthy (orDefault v d)"
  by (simp add: orDefault_def truthy_def split: option.splits)

lemma truthy_not_empty: "truthy v \<Longrightarrow> v \<noteq> JNull \<and> v \<noteq> JStr []"
  by (auto simp: truthy_def)

lemma orDefault_missing:
  "v \<in> {None, Some JNull, Some (JStr [])} \<Longrightarrow> orDefault v d = JStr d"
  by (auto simp: orDefault_def truthy_def)

lemma orDefault_kept: "v = Some x \<Longrightarrow> truthy x \<Longrightarrow> orDefault v d = x"
  by (simp add: orDefault_def)

text \<open>
  C8: for every parsed object no text field of the sanitizer's result is null or the empty
  string, and a field that is absent, null or the empty string in the object is replaced
  by its default.
\<close>

theorem sanitizer_text_fields_nonempty:
  "case validateQualificationResult (JObj kvs) of
     Inl e \<Rightarrow> False
   | Inr r \<Rightarrow>
       (motivation r \<noteq> JNull \<and> motivation r \<noteq> JStr [])
     \<and> (timeline r \<noteq> JNull \<and> timeline r \<noteq> JStr [])
     \<and> (budget r \<noteq> JNull \<and> budget r \<noteq> JStr [])
     \<and> (authority r \<noteq> JNull \<and> authority r \<noteq> JStr [])
     \<and> (pastExperience r \<noteq> JNull \<and> pastExperience r \<noteq> JStr [])
     \<and> (map_of kvs ''motivation'' \<in> {None, Some JNull, Some (JStr [])}
            \<longrightarrow> motivation r = JStr ''Not identified during call'')
     \<and> (map_of kvs ''timeline'' \<in> {None, Some JNull, Some (JStr [])}
            \<longrightarrow> timeline r = JStr ''Not discussed'')
     \<and> (map_of kvs ''budget'' \<in> {None, Some JNull, Some (JStr [])}
            \<longrightarrow> budget r = JStr ''Not discussed'')
     \<and> (map_of kvs ''authority'' \<in> {None, Some JNull, Some (JStr [])}
            \<longrightarrow> authority r = JStr ''Unknown'')
     \<and> (map_of kvs ''pastExperience'' \<in> {None, Some JNull, Some (JStr [])}
            \<longrightarrow> pastExperience r = JStr ''Not discussed'')"
proof -
  obtain r where r: "validateQualificationResult (JObj kvs) = Inr r"
    and m: "motivation r = orDefault (map_of kvs ''motivation'') ''Not identified during call''"
    and t: "timeline r = orDefault (map_of kvs ''timeline'') ''Not discussed''"
    and b: "budget r = orDefault (map_of kvs ''budget'') ''Not discussed''"
    and a: "authority r = orDefault (map_of kvs ''authority'') ''Unknown''"
    and p: "pastExperience r = orDefault (map_of kvs ''pastExperience'') ''Not discussed''"
    by (simp add: validateQualificationResult_def property_def Let_def)
  have "truthy (motivation r)" "truthy (timeline r)" "truthy (budget r)"
    "truthy (authority r)" "truthy (pastExperience r)"
    by (simp_all add: m t b a p orDefault_truthy)
  then have nonempty:
    "motivation r \<noteq> JNull \<and> motivation r \<noteq> JStr []"
    "timeline r \<noteq> JNull \<and> timeline r \<noteq> JStr []"
    "budget r \<noteq> JNull \<and> budget r \<noteq> JStr []"
    "authority r \<noteq> JNull \<and> authority r \<noteq> JStr []"
    "pastExperience r \<noteq> JNull \<and> pastExperience r \<noteq> JStr []"
    by (simp_all only: truthy_not_empty simp_thms)
  have defaults:
    "map_of kvs ''motivation'' \<in> {None, Some JNull, Some (JStr [])}
       \<longrightarrow> motivation r = JStr ''Not identified during call''"
    "map_of kvs ''timeline'' \<in> {None, Some JNull, Some (JStr [])}
       \<longrightarrow> timeline r = JStr ''Not discussed''"
    "map_of kvs ''budget'' \<in> {None, Some JNull, Some (JStr [])}
       \<longrightarrow> budget r = JStr ''Not discussed''"
    "map_of kvs ''authority'' \<in> {None, Some JNull, Some (JStr [])}
       \<longrightarrow> authority r = JStr ''Unknown''"
    "map_of kvs ''pastExperience'' \<in> {None, Some JNull, Some (JStr [])}
       \<longrightarrow> pastExperience r = JStr ''Not discussed''"
    using orDefault_missing by (simp_all only: m t b a p) blast+
  from nonempty defaults show ?thesis by (simp only: r sum.case simp_thms)
qed

text \<open>A null, an empty, a kept, a falsy and an absent field.\<close>

theorem sanitizer_text_fields_nonempty_witness:
  "validateQualificationResult
     (JObj [(''motivation'', JNull), (''timeline'', JStr []),
            (''budget'', JStr ''$5K-25K''), (''authority'', JNum (Finite 0))])
   = Inr \<lparr>motivation = JStr ''Not identified during call'',
          timeline = JStr ''Not discussed'', budget = JStr ''$5K-25K'',
          authority = JStr ''Unknown'', pastExperience = JStr ''Not discussed'',
          intent = ''cold'', qualificationScore = 0\<rparr>"
  using sanitizer_text_fields_nonempty
          [of "[(''motivation'', JNull), (''timeline'', JStr []),
                (''budget'', JStr ''$5K-25K''), (''authority'', JNum (Finite 0))]"]
  by (simp add: validateQualificationResult_def property_def validIntents_def
      clampScore_def Math_round_def orDefault_def truthy_def Let_def)

subsection \<open>Heuristic fallback analyzer\<close>

text \<open>Each keyword loop adds its delta once for every keyword of its list that occurs.\<close>

lemma scanSignals_count:
  "scanSignals lt delta signals score =
     score + delta * int (length (filter (str_includes lt) signals))"
  by (induction signals arbitrary: score) (simp_all add: algebra_simps)

text \<open>Trimming leaves nothing exactly when the text is all white space.\<close>

lemma trim_eq_Nil_iff: "trim t = [] \<longleftrightarrow> (\<forall>c \<in> set t. isWhitespace c)"
proof
  assume "trim t = []"
  then have a: "\<forall>c \<in> set (dropWhile isWhitespace t). isWhitespace c"
    by (simp add: trim_def)
  show "\<forall>c \<in> set t. isWhitespace c"
  proof (cases "dropWhile isWhitespace t = []")
    case True then show ?thesis by simp
  next
    case False
    then have "\<not> isWhitespace (hd (dropWhile isWhitespace t))" by (rule hd_dropWhile)
    moreover have "hd (dropWhile isWhitespace t) \<in> set (dropWhile isWhitespace t)"
      using False by simp
    ultimately show ?thesis using a by blast
  qed
next
  assume "\<forall>c \<in> set t. isWhitespace c"
  then show "trim t = []" by (auto simp: trim_def dest: set_dropWhileD)
qed

lemma fallbackRawScore_formula:
  "fallbackRawScore context =
     30 + spec_durationAdjustment (duration context)
        + (if endedReason context = Some ''customer-ended-call'' then - 15 else 0)
        + (case transcript context of
             None \<Rightarrow> - 20
           | Some t \<Rightarrow> if trim t = [] then - 20 else spec_keywordAdjustment t)"
proof -
  have blank: "t \<noteq> [] \<and> 0 < length (trim t) \<longleftrightarrow> trim t \<noteq> []" for t
    by (auto simp: trim_def)
  show ?thesis
    unfolding fallbackRawScore_def Let_def blank
    by (simp add: spec_durationAdjustment_def spec_keywordAdjustment_def scanSignals_count
        split: option.splits)
qed

lemma fallback_score_clamped:
  "qualificationScore (fallbackAnalysis context) = max 0 (min 100 (fallbackRawScore context))"
  by (simp add: fallbackAnalysis_def Let_def)

lemma fallback_intent_thresholds:
  "intent (fallbackAnalysis context) =
     (if qualificationScore (fallbackAnalysis context) \<ge> 60 then ''hot''
      else if qualificationScore (fallbackAnalysis context) \<ge> 35 then ''warm''
      else ''cold'')"
  unfolding fallbackAnalysis_def Let_def
  by (simp only: QualificationResult.select_convs)

text \<open>
  C4, as stated: the keywords are scanned when the transcript is non-empty, and 20 is
  subtracted when it is absent or empty. The source scans only a transcript that is
  non-empty after trimming, so a transcript of one space gets 30 - 20 = 10 where the
  stated formula gives 30.
\<close>

theorem fallback_score_stated_counterexample:
  "qualificationScore
     (fallbackAnalysis \<lparr>duration = None, endedReason = None, transcript = Some '' ''\<rparr>)
   \<noteq> spec_fallbackScore (\<lambda>t. t = [])
       \<lparr>duration = None, endedReason = None, transcript = Some '' ''\<rparr>"
  by code_simp

text \<open>
  C4, amended: for every call context the fallback score is the clamp into 0..100 of 30,
  plus the duration adjustment, minus 15 if the call was ended by the customer, plus 5 for
  each positive and minus 10 for each negative keyword occurring in the lowercased
  transcript (each keyword once) when the transcript is non-empty after trimming, minus 20
  when the transcript is absent, empty or all white space; the intent is hot from 60, warm
  from 35, cold below.
\<close>

theorem fallback_score_formula:
  "qualificationScore (fallbackAnalysis context) =
     spec_fallbackScore (\<lambda>t. trim t = []) context
   \<and> intent (fallbackAnalysis context) =
     (if qualificationScore (fallbackAnalysis context) \<ge> 60 then ''hot''
      else if qualificationScore (fallbackAnalysis context) \<ge> 35 then ''warm''
      else ''cold'')"
proof -
  have "qualificationScore (fallbackAnalysis context) =
          max 0 (min 100 (fallbackRawScore context))"
    by (rule fallback_score_clamped)
  also have "\<dots> = spec_fallbackScore (\<lambda>t. trim t = []) context"
    by (simp only: fallbackRawScore_formula spec_fallbackScore_def)
  finally show ?thesis using fallback_intent_thresholds [of "context"] by simp
qed

text \<open>The fifth end-to-end scenario: 200 seconds and no keyword give 45 and warm.\<close>

theorem fallback_score_formula_witness:
  "qualificationScore (fallbackAnalysis
     \<lparr>duration = Some 200, endedReason = Some ''assistant-ended-call'',
      transcript = Some ''Agent: Hello. Lead: We have a budget and a deadline.''\<rparr>) = 45
   \<and> intent (fallbackAnalysis
     \<lparr>duration = Some 200, endedReason = Some ''assistant-ended-call'',
      transcript = Some ''Agent: Hello. Lead: We have a budget and a deadline.''\<rparr>) = ''warm''"
proof -
  have "spec_fallbackScore (\<lambda>t. trim t = [])
     \<lparr>duration = Some 200, endedReason = Some ''assistant-ended-call'',
      transcript = Some ''Agent: Hello. Lead: We have a budget and a deadline.''\<rparr> = 45"
    by code_simp
  with fallback_score_formula
         [of "\<lparr>duration = Some 200, endedReason = Some ''assistant-ended-call'',
      transcript = Some ''Agent: Hello. Lead: We have a budget and a deadline.''\<rparr>"]
  show ?thesis by simp
qed

text \<open>At most nine positive keywords occur, and the duration adds at most 15.\<close>

lemma keyword_count_bounds:
  "length (filter (str_includes lt) positiveSignals) \<le> 9"
proof -
  have "length (filter (str_includes lt) positiveSignals) \<le> length positiveSignals"
    by (rule length_filter_le)
  also have "length positiveSignals = 9" by (simp add: positiveSignals_def)
  finally show ?thesis .
qed

lemma fallbackRawScore_le_90: "fallbackRawScore context \<le> 90"
proof -
  have d: "spec_durationAdjustment (duration context) \<le> 15"
    by (simp add: spec_durationAdjustment_def split: option.splits)
  have k: "spec_keywordAdjustment t \<le> 45" for t
    using keyword_count_bounds [of "toLowerCase t"]
    by (simp add: spec_keywordAdjustment_def)
  have "(case transcript context of
             None \<Rightarrow> - 20
           | Some t \<Rightarrow> if trim t = [] then - 20 else spec_keywordAdjustment t) \<le> 45"
    using k by (simp split: option.splits)
  with d show ?thesis unfolding fallbackRawScore_formula by (simp split: if_splits)
qed

text \<open>
  C9: the fallback score never exceeds 90 (30, plus at most 15 for the duration, plus at
  most nine times 5), so it is never 100; a hot intent means a score from 60 to 90, and
  some call context reaches hot with 90.
\<close>

theorem fallback_score_at_most_90:
  "qualificationScore (fallbackAnalysis context) \<le> 90
   \<and> qualificationScore (fallbackAnalysis context) \<noteq> 100
   \<and> (intent (fallbackAnalysis context) = ''hot'' \<longrightarrow>
        60 \<le> qualificationScore (fallbackAnalysis context)
        \<and> qualificationScore (fallbackAnalysis context) \<le> 90)
   \<and> (\<exists>c. intent (fallbackAnalysis c) = ''hot''
          \<and> qualificationScore (fallbackAnalysis c) = 90)"
proof -
  have le: "qualificationScore (fallbackAnalysis context) \<le> 90"
    using fallbackRawScore_le_90 [of "context"] by (simp add: fallback_score_clamped)
  have hot: "intent (fallbackAnalysis context) = ''hot'' \<longrightarrow>
               60 \<le> qualificationScore (fallbackAnalysis context)"
    by (simp add: fallback_intent_thresholds [of "context"])
  have "fallbackAnalysis
          \<lparr>duration = Some 200, endedReason = None,
           transcript = Some ''interested need want looking for excited great perfect yes tell me more''\<rparr>
        = \<lparr>motivation = JStr ''Analysis performed without AI - limited data available'',
           timeline = JStr ''Not determined'', budget = JStr ''Not determined'',
           authority = JStr ''Not determined'', pastExperience = JStr ''Not determined'',
           intent = ''hot'', qualificationScore = 90\<rparr>"
    by code_simp
  then have ex: "\<exists>c. intent (fallbackAnalysis c) = ''hot''
                  \<and> qualificationScore (fallbackAnalysis c) = 90"
    by (intro exI [of _ "\<lparr>duration = Some 200, endedReason = None,
           transcript = Some ''interested need want looking for excited great perfect yes tell me more''\<rparr>"])
       simp
  from le hot ex show ?thesis by simp
qed

theorem fallback_score_at_most_90_witness:
  "intent (fallbackAnalysis
     \<lparr>duration = Some 150, endedReason = None,
      transcript = Some ''Yes, we need this, I am interested, tell me more''\<rparr>) = ''hot''
   \<and> 60 \<le> qualificationScore (fallbackAnalysis
     \<lparr>duration = Some 150, endedReason = None,
      transcript = Some ''Yes, we need this, I am interested, tell me more''\<rparr>)
   \<and> qualificationScore (fallbackAnalysis
     \<lparr>duration = Some 150, endedReason = None,
      transcript = Some ''Yes, we need this, I am interested, tell me more''\<rparr>) \<le> 90"
proof -
  have "intent (fallbackAnalysis
     \<lparr>duration = Some 150, endedReason = None,
      transcript = Some ''Yes, we need this, I am interested, tell me more''\<rparr>) = ''hot''"
    by code_simp
  with fallback_score_at_most_90
         [of "\<lparr>duration = Some 150, endedReason = None,
      transcript = Some ''Yes, we need this, I am interested, tell me more''\<rparr>"]
  show ?thesis by blast
qed

text \<open>
  The positive keyword "interested" lies inside the negative keyword "not interested", and
  lowercasing keeps a lowercase phrase where it is.
\<close>

lemma lower_not_interested: "toLowerCase ''not interested'' = ''not interested''"
  by code_simp

lemma interested_in_not_interested: "sublist ''interested'' ''not interested''"
  by code_simp

lemma contains_not_interested:
  assumes "sublist ''not interested'' t"
  shows "str_includes (toLowerCase t) ''not interested''"
    and "str_includes (toLowerCase t) ''interested''"
    and "trim t \<noteq> []"
proof -
  have "sublist (toLowerCase ''not interested'') (toLowerCase t)"
    unfolding toLowerCase_def using assms by (rule map_mono_sublist)
  then show 1: "str_includes (toLowerCase t) ''not interested''"
    by (simp only: lower_not_interested str_includes_def)
  from interested_in_not_interested 1
  show "str_includes (toLowerCase t) ''interested''"
    unfolding str_includes_def by (rule sublist_order.order_trans)
  have "CHR ''n'' \<in> set t" using set_mono_sublist [OF assms] by auto
  moreover have "\<not> isWhitespace CHR ''n''" by (simp add: isWhitespace_def)
  ultimately show "trim t \<noteq> []" unfolding trim_eq_Nil_iff by blast
qed

text \<open>
  C10: keywords are matched as substrings, so for every transcript that contains
  "not interested" both the positive keyword "interested" and the negative keyword
  "not interested" match; the two together contribute 5 - 10 = -5 to the score before
  clamping, beside what the other keywords, the duration and the end reason contribute.
\<close>

theorem not_interested_nets_minus_5:
  assumes "transcript context = Some t" and "sublist ''not interested'' t"
  shows "str_includes (toLowerCase t) ''interested''
       \<and> str_includes (toLowerCase t) ''not interested''
       \<and> fallbackRawScore context =
           30 + spec_durationAdjustment (duration context)
              + (if endedReason context = Some ''customer-ended-call'' then - 15 else 0)
              + (5 - 10)
              + 5 * int (length (filter (str_includes (toLowerCase t))
                                   (remove1 ''interested'' positiveSignals)))
              - 10 * int (length (filter (str_includes (toLowerCase t))
                                    (remove1 ''not interested'' negativeSignals)))
       \<and> qualificationScore (fallbackAnalysis context) =
           max 0 (min 100 (fallbackRawScore context))"
proof -
  note c = contains_not_interested [OF assms(2)]
  have p: "int (length (filter (str_includes (toLowerCase t)) positiveSignals)) =
             1 + int (length (filter (str_includes (toLowerCase t))
                                (remove1 ''interested'' positiveSignals)))"
    using c(2) by (simp add: positiveSignals_def)
  have n: "int (length (filter (str_includes (toLowerCase t)) negativeSignals)) =
             1 + int (length (filter (str_includes (toLowerCase t))
                                (remove1 ''not interested'' negativeSignals)))"
    using c(1) by (simp add: negativeSignals_def)
  have "fallbackRawScore context =
           30 + spec_durationAdjustment (duration context)
              + (if endedReason context = Some ''customer-ended-call'' then - 15 else 0)
              + spec_keywordAdjustment t"
    using assms(1) c(3) by (simp add: fallbackRawScore_formula)
  then show ?thesis
    using c(1,2) by (simp add: spec_keywordAdjustment_def p n fallback_score_clamped)
qed

theorem not_interested_nets_minus_5_witness:
  "sublist ''not interested'' ''Sorry, not interested''
   \<and> fallbackRawScore
        \<lparr>duration = None, endedReason = None, transcript = Some ''Sorry, not interested''\<rparr>
      = 25
   \<and> qualificationScore (fallbackAnalysis
        \<lparr>duration = None, endedReason = None, transcript = Some ''Sorry, not interested''\<rparr>)
      = 25"
proof -
  have s: "sublist ''not interested'' ''Sorry, not interested''" by code_simp
  have r: "fallbackRawScore
        \<lparr>duration = None, endedReason = None, transcript = Some ''Sorry, not interested''\<rparr>
      = 25" by code_simp
  from not_interested_nets_minus_5
         [of "\<lparr>duration = None, endedReason = None,
               transcript = Some ''Sorry, not interested''\<rparr>" "''Sorry, not interested''"]
       s r
  show ?thesis by simp
qed

subsection \<open>Orchestrator\<close>

text \<open>Every tier produces a fully populated result.\<close>

lemma cold_signal_well_formed:
  assumes "checkForColdLeadSignals context = Some r"
  shows "intent r = ''cold'' \<and> qualificationScore r \<in> {5, 10, 15}
       \<and> truthy (motivation r) \<and> truthy (timeline r) \<and> truthy (budget r)
       \<and> truthy (authority r) \<and> truthy (pastExperience r)"
  using assms
  by (auto simp: checkForColdLeadSignals_def getColdLeadResult_def truthy_def
      split: if_splits)

lemma fallback_well_formed:
  "intent (fallbackAnalysis context) \<in> {''hot'', ''warm'', ''cold''}
   \<and> 0 \<le> qualificationScore (fallbackAnalysis context)
   \<and> qualificationScore (fallbackAnalysis context) \<le> 100
   \<and> truthy (motivation (fallbackAnalysis context))
   \<and> truthy (timeline (fallbackAnalysis context))
   \<and> truthy (budget (fallbackAnalysis context))
   \<and> truthy (authority (fallbackAnalysis context))
   \<and> truthy (pastExperience (fallbackAnalysis context))"
  by (simp add: fallbackAnalysis_def Let_def truthy_def)

lemma validate_well_formed:
  assumes "validateQualificationResult v = Inr r"
  shows "intent r \<in> {''hot'', ''warm'', ''cold''}
       \<and> 0 \<le> qualificationScore r \<and> qualificationScore r \<le> 100
       \<and> truthy (motivation r) \<and> truthy (timeline r) \<and> truthy (budget r)
       \<and> truthy (authority r) \<and> truthy (pastExperience r)"
proof -
  from assms have r: "r =
      \<lparr> motivation = orDefault (property v ''motivation'') ''Not identified during call'',
        timeline = orDefault (property v ''timeline'') ''Not discussed'',
        budget = orDefault (property v ''budget'') ''Not discussed'',
        authority = orDefault (property v ''authority'') ''Unknown'',
        pastExperience = orDefault (property v ''pastExperience'') ''Not discussed'',
        intent = (case property v ''intent'' of
                    Some (JStr s) \<Rightarrow> if s \<in> set validIntents then s else ''cold''
                  | _ \<Rightarrow> ''cold''),
        qualificationScore = clampScore (case property v ''qualificationScore'' of
                       Some (JNum n) \<Rightarrow> n
                     | _ \<Rightarrow> Finite 0) \<rparr>"
    by (simp add: validateQualificationResult_def Let_def split: if_splits)
  have i: "intent r \<in> {''hot'', ''warm'', ''cold''}"
    unfolding r by (simp add: validIntents_def split: option.splits js_value.splits)
  have s: "0 \<le> qualificationScore r \<and> qualificationScore r \<le> 100"
    unfolding r using clampScore_range by simp
  have t: "truthy (motivation r) \<and> truthy (timeline r) \<and> truthy (budget r)
       \<and> truthy (authority r) \<and> truthy (pastExperience r)"
    unfolding r by (simp add: orDefault_truthy)
  from i s t show ?thesis by simp
qed

lemma tryExtract_well_formed:
  assumes "tryExtract JSON_parse config messages_create context = (Inr r, requests)"
  shows "intent r \<in> {''hot'', ''warm'', ''cold''}
       \<and> 0 \<le> qualificationScore r \<and> qualificationScore r \<le> 100
       \<and> truthy (motivation r) \<and> truthy (timeline r) \<and> truthy (budget r)
       \<and> truthy (authority r) \<and> truthy (pastExperience r)"
proof -
  from assms consider
      (empty) "r = getColdLeadResult ''No conversation recorded''"
    | (fallback) "r = fallbackAnalysis context"
    | (validated) v where "validateQualificationResult v = Inr r"
    by (auto simp: tryExtract_def Let_def
        split: option.splits if_splits sum.splits provider_reply.splits content_block.splits)
  then show ?thesis
  proof cases
    case empty
    then show ?thesis by (simp add: getColdLeadResult_def truthy_def)
  next
    case fallback
    then show ?thesis using fallback_well_formed [of "context"] by simp
  next
    case validated
    then show ?thesis by (rule validate_well_formed)
  qed
qed

text \<open>
  C2: for every call context, every configuration, every behaviour of \<^verbatim>\<open>JSON.parse\<close> and
  every behaviour of the provider (any reply text, a reply without a text block, a thrown
  error) the orchestrator returns a result; no exception of the \<^verbatim>\<open>try\<close> block escapes. The
  result's intent is hot, warm or cold, its score is an integer from 0 to 100, and its
  five text fields are truthy, hence neither null nor empty.
\<close>

theorem orchestrator_always_returns_well_formed:
  "\<exists>r requests.
     extractQualificationData JSON_parse config messages_create context = (r, requests)
     \<and> intent r \<in> {''hot'', ''warm'', ''cold''}
     \<and> 0 \<le> qualificationScore r \<and> qualificationScore r \<le> 100
     \<and> truthy (motivation r) \<and> truthy (timeline r) \<and> truthy (budget r)
     \<and> truthy (authority r) \<and> truthy (pastExperience r)"
proof (cases "checkForColdLeadSignals context")
  case (Some r)
  with cold_signal_well_formed [OF Some] show ?thesis
    by (auto simp: extractQualificationData_def)
next
  case None
  show ?thesis
  proof (cases "isConfigured config")
    case False
    with None fallback_well_formed [of "context"] show ?thesis
      by (simp add: extractQualificationData_def)
  next
    case True
    obtain outcome requests
      where t: "tryExtract JSON_parse config messages_create context = (outcome, requests)"
      by (cases "tryExtract JSON_parse config messages_create context")
    show ?thesis
    proof (cases outcome)
      case (Inl e)
      with None True t fallback_well_formed [of "context"] show ?thesis
        by (simp add: extractQualificationData_def)
    next
      case (Inr r)
      with t have "tryExtract JSON_parse config messages_create context = (Inr r, requests)"
        by simp
      from tryExtract_well_formed [OF this] None True t Inr show ?thesis
        by (simp add: extractQualificationData_def)
    qed
  qed
qed

text \<open>When all three parsing attempts fail, the parser returns the empty object.\<close>

lemma parse_failure_empty_object:
  assumes "JSON_parse jsonText = None"
    and "case matchCodeBlock jsonText of
           None \<Rightarrow> True
         | Some inner \<Rightarrow> inner = [] \<or> JSON_parse (trim inner) = None"
    and "case matchObjectPattern jsonText of
           None \<Rightarrow> True
         | Some obj \<Rightarrow> JSON_parse obj = None"
  shows "parseQualificationJson JSON_parse jsonText = JObj []"
  using assms by (auto simp: parseQualificationJson_def split: option.splits)

lemma validate_empty_object:
  "validateQualificationResult (JObj []) =
     Inr \<lparr>motivation = JStr ''Not identified during call'',
          timeline = JStr ''Not discussed'', budget = JStr ''Not discussed'',
          authority = JStr ''Unknown'', pastExperience = JStr ''Not discussed'',
          intent = ''cold'', qualificationScore = 0\<rparr>"
  by (simp add: validateQualificationResult_def property_def orDefault_def clampScore_def
      Math_round_def Let_def)

text \<open>
  The exits of the \<^verbatim>\<open>try\<close> block beside the unparseable reply: a thrown error of the
  provider, a reply without a text block, and a reply that parses to \<^verbatim>\<open>null\<close> (reading
  its properties throws) all end in the fallback analysis.
\<close>

lemma sibling_exits_use_fallback:
  assumes "checkForColdLeadSignals context = None"
    and "isConfigured config"
    and "transcript context = Some t" and "trim t \<noteq> []"
  shows "(messages_create (truncateTranscript (trim t)) = Threw \<longrightarrow>
            fst (extractQualificationData JSON_parse config messages_create context)
              = fallbackAnalysis context)
       \<and> (\<forall>content. messages_create (truncateTranscript (trim t)) = Message content
                    \<and> find isTextBlock content = None \<longrightarrow>
            fst (extractQualificationData JSON_parse config messages_create context)
              = fallbackAnalysis context)
       \<and> (\<forall>content text. messages_create (truncateTranscript (trim t)) = Message content
                    \<and> find isTextBlock content = Some (TextBlock text)
                    \<and> JSON_parse (trim text) = Some JNull \<longrightarrow>
            fst (extractQualificationData JSON_parse config messages_create context)
              = fallbackAnalysis context)"
proof -
  obtain client where c: "getAnthropicClient config = Inr client"
    using assms(2)
    by (auto simp: isConfigured_def keyIsSet_def getAnthropicClient_def split: option.splits)
  have e: "t \<noteq> []" using assms(4) by (auto simp: trim_def)
  show ?thesis
    using assms e c
    by (auto simp: extractQualificationData_def tryExtract_def Let_def
        parseQualificationJson_def validateQualificationResult_def)
qed

text \<open>
  The unparseable reply itself: when all three parsing attempts fail, the source hands the
  empty object to the sanitizer and returns its defaults, whatever the call context.
\<close>

lemma unparseable_reply_path:
  assumes "checkForColdLeadSignals context = None"
    and "isConfigured config"
    and "transcript context = Some t" and "trim t \<noteq> []"
    and "messages_create (truncateTranscript (trim t)) = Message content"
    and "find isTextBlock content = Some (TextBlock text)"
    and "JSON_parse (trim text) = None"
    and "case matchCodeBlock (trim text) of
           None \<Rightarrow> True
         | Some inner \<Rightarrow> inner = [] \<or> JSON_parse (trim inner) = None"
    and "case matchObjectPattern (trim text) of
           None \<Rightarrow> True
         | Some obj \<Rightarrow> JSON_parse obj = None"
  shows "extractQualificationData JSON_parse config messages_create context =
           (\<lparr>motivation = JStr ''Not identified during call'',
             timeline = JStr ''Not discussed'', budget = JStr ''Not discussed'',
             authority = JStr ''Unknown'', pastExperience = JStr ''Not discussed'',
             intent = ''cold'', qualificationScore = 0\<rparr>,
            [truncateTranscript (trim t)])"
proof -
  have p: "parseQualificationJson JSON_parse (trim text) = JObj []"
    using assms(7,8,9) by (rule parse_failure_empty_object)
  have k: "getAnthropicClient config \<noteq> Inl ConfigError"
    using assms(2)
    by (auto simp: isConfigured_def keyIsSet_def getAnthropicClient_def split: option.splits)
  then obtain client where c: "getAnthropicClient config = Inr client"
    by (auto simp: getAnthropicClient_def split: option.splits if_splits)
  have e: "t \<noteq> []" using assms(4) by (auto simp: trim_def)
  have "tryExtract JSON_parse config messages_create context =
          (validateQualificationResult (JObj []), [truncateTranscript (trim t)])"
    using assms(3,4,5,6) e c p by (simp add: tryExtract_def Let_def)
  with assms(1,2) show ?thesis
    by (simp add: extractQualificationData_def validate_empty_object)
qed

text \<open>
  C1: when no JSON can be recovered from the reply, the orchestrator is to return the
  fallback analysis of the call context. The source misses this: the parser reports the
  failure on the error log and returns the empty object \<^verbatim>\<open>{}\<close>, which the sanitizer
  turns into its defaults, while the other exits of the same \<^verbatim>\<open>try\<close> block (a reply
  without a text block, a thrown error) do return the fallback analysis. Evaluated at a
  reply with no fence and no brace, where \<^verbatim>\<open>JSON.parse\<close> is asked about the whole reply
  only, which is no JSON: the orchestrator returns cold with score 0, the fallback analysis
  of the same call context is warm with 35.
\<close>

theorem unparseable_reply_skips_fallback:
  "matchCodeBlock ''I cannot analyse this call.'' = None
   \<and> matchObjectPattern ''I cannot analyse this call.'' = None
   \<and> fst (extractQualificationData (\<lambda>s. None)
        \<lparr>vapiApiKey = Some ''vapi-key'', vapiWebhookSecret = None,
         vapiPhoneNumberId = Some ''phone-id'', anthropicApiKey = Some ''api-key''\<rparr>
        (\<lambda>s. Message [TextBlock ''I cannot analyse this call.''])
        \<lparr>duration = None, endedReason = None, transcript = Some ''I am interested''\<rparr>)
     = \<lparr>motivation = JStr ''Not identified during call'',
        timeline = JStr ''Not discussed'', budget = JStr ''Not discussed'',
        authority = JStr ''Unknown'', pastExperience = JStr ''Not discussed'',
        intent = ''cold'', qualificationScore = 0\<rparr>
   \<and> fallbackAnalysis
        \<lparr>duration = None, endedReason = None, transcript = Some ''I am interested''\<rparr>
     = \<lparr>motivation = JStr ''Analysis performed without AI - limited data available'',
        timeline = JStr ''Not determined'', budget = JStr ''Not determined'',
        authority = JStr ''Not determined'', pastExperience = JStr ''Not determined'',
        intent = ''warm'', qualificationScore = 35\<rparr>
   \<and> fst (extractQualificationData (\<lambda>s. None)
        \<lparr>vapiApiKey = Some ''vapi-key'', vapiWebhookSecret = None,
         vapiPhoneNumberId = Some ''phone-id'', anthropicApiKey = Some ''api-key''\<rparr>
        (\<lambda>s. Message [TextBlock ''I cannot analyse this call.''])
        \<lparr>duration = None, endedReason = None, transcript = Some ''I am interested''\<rparr>)
     \<noteq> fallbackAnalysis
        \<lparr>duration = None, endedReason = None, transcript = Some ''I am interested''\<rparr>"
  by code_simp

end
